theory Spec2Isabelle
  imports Complex_Main
begin

section \<open>The dispatch vocabulary of flow: stamps, dispatches, capture ranges\<close>

text \<open>
  A shallow embedding of \<^verbatim>\<open>flow/include/dispatch.h\<close> and
  \<^verbatim>\<open>flow/include/dispatch/dispatch_ostream.h\<close>.

  The headers are templates, so part of what they do happens when a template is
  instantiated: which \<^verbatim>\<open>StampTraits\<close> definition is selected for a stamp type, what its
  \<^verbatim>\<open>offset_type\<close> is, and whether the instantiation is well-formed at all. That layer is
  embedded over a datatype of C++ types, with an ill-formed instantiation as an error value.
  The run-time layer (constructors, accessors, comparison, stream output) is embedded as
  functions that are polymorphic in the stamp type \<open>'S\<close> and the value type \<open>'V\<close>.
\<close>

subsection \<open>C++ types and the two standard traits the primary template uses\<close>

text \<open>
  The standard signed and unsigned integer types are a signedness and a rank; plain
  \<^verbatim>\<open>char\<close> is a type of its own. \<^verbatim>\<open>Class\<close> stands for any class type other than a
  \<^verbatim>\<open>std::chrono::time_point\<close> (clocks, durations, user-defined stamp classes). The wide
  character types, enumerations, pointers and cv-qualified types are outside the model.
\<close>

datatype rank = Char_rank | Short_rank | Int_rank | Long_rank | Long_long_rank

datatype cpp_type =
    Void
  | Nullptr_t
  | Bool
  | Plain_char
  | Signed rank
  | Unsigned rank
  | Float
  | Double
  | Long_double
  | Time_point cpp_type cpp_type
  | Class string

datatype compile_error =
    Static_assert_failed string
  | Make_signed_ill_formed cpp_type
  | No_member string
  | Private_member string
  | Member_function_not_called string

text \<open>
  \<^verbatim>\<open>std::is_fundamental\<close>: the arithmetic types, \<^verbatim>\<open>void\<close> and
  \<^verbatim>\<open>std::nullptr_t\<close>.
\<close>

fun is_fundamental :: "cpp_type \<Rightarrow> bool" where
  "is_fundamental (Time_point ClockT DurationT) = False"
| "is_fundamental (Class name) = False"
| "is_fundamental T = True"

text \<open>
  \<^verbatim>\<open>std::make_signed<T>::type\<close>: the C++ standard requires \<^verbatim>\<open>T\<close> to be an integral
  (or enumeration) type other than \<^verbatim>\<open>bool\<close>; the program is ill-formed otherwise. For an
  integer type the result is the signed type of the same rank.
\<close>

fun make_signed :: "cpp_type \<Rightarrow> compile_error + cpp_type" where
  "make_signed Plain_char = Inr (Signed Char_rank)"
| "make_signed (Signed r) = Inr (Signed r)"
| "make_signed (Unsigned r) = Inr (Signed r)"
| "make_signed T = Inl (Make_signed_ill_formed T)"

text \<open>
  \<^verbatim>\<open>std::numeric_limits<T>::min()\<close> and \<^verbatim>\<open>max()\<close> of an integer type that is signed or
  not and has \<open>w\<close> bits (two's complement, the sign bit included).
\<close>

definition numeric_limits_min :: "bool \<Rightarrow> nat \<Rightarrow> int" where
  "numeric_limits_min is_signed w = (if is_signed then - (2 ^ (w - 1)) else 0)"

definition numeric_limits_max :: "bool \<Rightarrow> nat \<Rightarrow> int" where
  "numeric_limits_max is_signed w = (if is_signed then 2 ^ (w - 1) - 1 else 2 ^ w - 1)"

fun integer_rank :: "cpp_type \<Rightarrow> rank option" where
  "integer_rank Plain_char = Some Char_rank"
| "integer_rank (Signed r) = Some r"
| "integer_rank (Unsigned r) = Some r"
| "integer_rank T = None"

subsection \<open>StampTraits\<close>

text \<open>
  An instantiated \<^verbatim>\<open>StampTraits<StampT>\<close>: its two member types and the values its
  \<^verbatim>\<open>min()\<close> and \<^verbatim>\<open>max()\<close> return.
\<close>

record 'S StampTraits =
  stamp_type :: cpp_type
  offset_type :: cpp_type
  min_stamp :: 'S
  max_stamp :: 'S

text \<open>
  The primary template (dispatch.h, lines 31-47). The static assertion comes first, then the
  member type \<^verbatim>\<open>offset_type\<close> is \<^verbatim>\<open>std::make_signed<StampT>::type\<close>; \<^verbatim>\<open>min()\<close> and
  \<^verbatim>\<open>max()\<close> return \<^verbatim>\<open>std::numeric_limits<StampT>::min()\<close> and \<^verbatim>\<open>max()\<close>, which the
  standard library provides and which are parameters here.
\<close>

definition StampTraits_primary ::
  "cpp_type \<Rightarrow> 'S \<Rightarrow> 'S \<Rightarrow> compile_error + 'S StampTraits" where
  "StampTraits_primary StampT limits_min limits_max =
     (if is_fundamental StampT then
        (case make_signed StampT of
           Inl e \<Rightarrow> Inl e
         | Inr signed_type \<Rightarrow>
             Inr \<lparr>stamp_type = StampT, offset_type = signed_type,
                  min_stamp = limits_min, max_stamp = limits_max\<rparr>)
      else Inl (Static_assert_failed (CHR 0x27 # ''StampT' must be fundemental type'')))"

text \<open>
  The partial specialization for \<^verbatim>\<open>std::chrono::time_point<ClockT, DurationT>\<close>
  (dispatch.h, lines 56-70): \<^verbatim>\<open>offset_type\<close> is \<^verbatim>\<open>DurationT\<close>; \<^verbatim>\<open>min()\<close> and \<^verbatim>\<open>max()\<close>
  return \<^verbatim>\<open>stamp_type::min()\<close> and \<^verbatim>\<open>stamp_type::max()\<close>, parameters here.
\<close>

definition StampTraits_time_point ::
  "cpp_type \<Rightarrow> cpp_type \<Rightarrow> 'S \<Rightarrow> 'S \<Rightarrow> 'S StampTraits" where
  "StampTraits_time_point ClockT DurationT time_point_min time_point_max =
     \<lparr>stamp_type = Time_point ClockT DurationT, offset_type = DurationT,
      min_stamp = time_point_min, max_stamp = time_point_max\<rparr>"

text \<open>
  Instantiating \<^verbatim>\<open>StampTraits<StampT>\<close>: the partial specialization is selected for a time
  point, the primary template for every other type. The two value arguments are the bounds
  the standard library gives for the stamp type (its numeric limits, or the time point's own
  \<^verbatim>\<open>min()\<close> and \<^verbatim>\<open>max()\<close>).
\<close>

definition StampTraits :: "cpp_type \<Rightarrow> 'S \<Rightarrow> 'S \<Rightarrow> compile_error + 'S StampTraits" where
  "StampTraits StampT lowest highest =
     (case StampT of
        Time_point ClockT DurationT \<Rightarrow>
          Inr (StampTraits_time_point ClockT DurationT lowest highest)
      | _ \<Rightarrow> StampTraits_primary StampT lowest highest)"

subsection \<open>Dispatch\<close>

text \<open>
  The private members \<^verbatim>\<open>stamp_\<close> and \<^verbatim>\<open>value_\<close> of \<^verbatim>\<open>Dispatch<StampT, ValueT>\<close>.
\<close>

record ('S, 'V) Dispatch =
  stamp_field :: 'S
  value_field :: 'V

text \<open>
  The value constructor (lines 103-107). The stamp is copied; the value is initialized in
  place from the argument pack. How \<^verbatim>\<open>ValueT\<close> is initialized from a pack of arguments is
  \<^verbatim>\<open>ValueT\<close>'s business and a parameter here; for a single argument of type \<^verbatim>\<open>ValueT\<close> it
  is the copy, \<open>\<lambda>v. v\<close>.
\<close>

definition Dispatch_ctor :: "('args \<Rightarrow> 'V) \<Rightarrow> 'S \<Rightarrow> 'args \<Rightarrow> ('S, 'V) Dispatch" where
  "Dispatch_ctor init_value stamp_arg value_args =
     \<lparr>stamp_field = stamp_arg, value_field = init_value value_args\<rparr>"

definition stamp :: "('S, 'V) Dispatch \<Rightarrow> 'S" where
  "stamp this = stamp_field this"

definition data :: "('S, 'V) Dispatch \<Rightarrow> 'V" where
  "data this = value_field this"

text \<open>\<^verbatim>\<open>operator<\<close> (lines 128-131), over the stamp type's own \<open><\<close>.\<close>

definition operator_less :: "('S::ord, 'V) Dispatch \<Rightarrow> ('S, 'V) Dispatch \<Rightarrow> bool" where
  "operator_less this other = (stamp_field this < stamp_field other)"

subsection \<open>CaptureRange\<close>

record 'S CaptureRange =
  lower_stamp :: 'S
  upper_stamp :: 'S

text \<open>
  The constructor (lines 196-200) has two defaulted parameters, so it is called with no
  argument, with one or with two. The defaults are \<^verbatim>\<open>StampTraits<StampT>::min()\<close> and
  \<^verbatim>\<open>StampTraits<StampT>::max()\<close>, read from the instantiated traits.
\<close>

datatype 'S CaptureRange_args = No_args | One_arg 'S | Two_args 'S 'S

definition CaptureRange_ctor :: "'S StampTraits \<Rightarrow> 'S CaptureRange_args \<Rightarrow> 'S CaptureRange" where
  "CaptureRange_ctor traits args =
     (let lower_arg = (case args of
                         No_args \<Rightarrow> min_stamp traits
                       | One_arg a \<Rightarrow> a
                       | Two_args a b \<Rightarrow> a);
          upper_arg = (case args of
                         No_args \<Rightarrow> max_stamp traits
                       | One_arg a \<Rightarrow> max_stamp traits
                       | Two_args a b \<Rightarrow> b)
      in \<lparr>lower_stamp = lower_arg, upper_stamp = upper_arg\<rparr>)"

subsection \<open>Stream output\<close>

text \<open>
  An output stream is the text written to it so far, in its default formatting state;
  \<^verbatim>\<open>os << x\<close> appends the text of \<open>x\<close> and returns the stream. How a stamp and a value
  are written is the business of their own \<^verbatim>\<open>operator<<\<close>, a parameter here
  (\<open>put_stamp\<close>, \<open>put_value\<close>).
\<close>

type_synonym ostream = string

text \<open>
  Who evaluates a member access: the class itself and its friends, or any other code. The
  inline friend overloads of dispatch.h are the former, the function templates of
  dispatch\_ostream.h the latter.
\<close>

datatype access = Friend | Outside

text \<open>
  The operand \<^verbatim>\<open>dispatch.name\<close> of a \<^verbatim>\<open>operator<<\<close>, by the members that
  \<^verbatim>\<open>class Dispatch\<close> declares (lines 95-150): the data members \<^verbatim>\<open>stamp_\<close> and
  \<^verbatim>\<open>value_\<close> are private, \<^verbatim>\<open>stamp\<close> and \<^verbatim>\<open>data\<close> are member functions (which an
  operand has to call), and there is no other named member.
\<close>

definition Dispatch_member ::
  "access \<Rightarrow> ('S \<Rightarrow> string) \<Rightarrow> ('V \<Rightarrow> string) \<Rightarrow> ('S, 'V) Dispatch \<Rightarrow> string
    \<Rightarrow> compile_error + string" where
  "Dispatch_member who put_stamp put_value dispatch name =
     (if name = ''stamp_'' then
        (if who = Friend then Inr (put_stamp (stamp_field dispatch))
         else Inl (Private_member name))
      else if name = ''value_'' then
        (if who = Friend then Inr (put_value (value_field dispatch))
         else Inl (Private_member name))
      else if name = ''stamp'' \<or> name = ''data'' then Inl (Member_function_not_called name)
      else Inl (No_member name))"

text \<open>
  The operand \<^verbatim>\<open>range.name\<close>: \<^verbatim>\<open>struct CaptureRange\<close> (lines 181-212) has the two
  public data members \<^verbatim>\<open>lower_stamp\<close> and \<^verbatim>\<open>upper_stamp\<close>.
\<close>

definition CaptureRange_member ::
  "access \<Rightarrow> ('S \<Rightarrow> string) \<Rightarrow> 'S CaptureRange \<Rightarrow> string \<Rightarrow> compile_error + string" where
  "CaptureRange_member who put_stamp capture_range name =
     (if name = ''lower_stamp'' then Inr (put_stamp (lower_stamp capture_range))
      else if name = ''upper_stamp'' then Inr (put_stamp (upper_stamp capture_range))
      else Inl (No_member name))"

text \<open>
  The friend overload for \<^verbatim>\<open>Dispatch\<close> (dispatch.h, lines 146-149):
  \<^verbatim>\<open>os << "stamp: " << dispatch.stamp_ << "\nvalue: " << dispatch.value_\<close>.
\<close>

definition Dispatch_ostream_friend ::
  "('S \<Rightarrow> string) \<Rightarrow> ('V \<Rightarrow> string) \<Rightarrow> ostream \<Rightarrow> ('S, 'V) Dispatch
    \<Rightarrow> compile_error + ostream" where
  "Dispatch_ostream_friend put_stamp put_value os dispatch =
     (case Dispatch_member Friend put_stamp put_value dispatch ''stamp_'' of
        Inl e \<Rightarrow> Inl e
      | Inr stamp_text \<Rightarrow>
          (case Dispatch_member Friend put_stamp put_value dispatch ''value_'' of
             Inl e \<Rightarrow> Inl e
           | Inr value_text \<Rightarrow>
               Inr (os @ ''stamp: '' @ stamp_text @ CHR 0x0A # ''value: '' @ value_text)))"

text \<open>
  The function template for \<^verbatim>\<open>Dispatch\<close> (dispatch\_ostream.h, lines 25-29):
  \<^verbatim>\<open>os << "stamp: " << dispatch.stamp << "\nvalue: " << dispatch.value\<close>.
\<close>

definition Dispatch_ostream_template ::
  "('S \<Rightarrow> string) \<Rightarrow> ('V \<Rightarrow> string) \<Rightarrow> ostream \<Rightarrow> ('S, 'V) Dispatch
    \<Rightarrow> compile_error + ostream" where
  "Dispatch_ostream_template put_stamp put_value os dispatch =
     (case Dispatch_member Outside put_stamp put_value dispatch ''stamp'' of
        Inl e \<Rightarrow> Inl e
      | Inr stamp_text \<Rightarrow>
          (case Dispatch_member Outside put_stamp put_value dispatch ''value'' of
             Inl e \<Rightarrow> Inl e
           | Inr value_text \<Rightarrow>
               Inr (os @ ''stamp: '' @ stamp_text @ CHR 0x0A # ''value: '' @ value_text)))"

text \<open>
  The friend overload for \<^verbatim>\<open>CaptureRange\<close> (dispatch.h, lines 208-211) and the function
  template (dispatch\_ostream.h, lines 39-42), both
  \<^verbatim>\<open>os << "lower_stamp: " << range.lower_stamp << ", upper_stamp: " << range.upper_stamp\<close>.
\<close>

definition CaptureRange_ostream ::
  "access \<Rightarrow> ('S \<Rightarrow> string) \<Rightarrow> ostream \<Rightarrow> 'S CaptureRange \<Rightarrow> compile_error + ostream" where
  "CaptureRange_ostream who put_stamp os capture_range =
     (case CaptureRange_member who put_stamp capture_range ''lower_stamp'' of
        Inl e \<Rightarrow> Inl e
      | Inr lower_text \<Rightarrow>
          (case CaptureRange_member who put_stamp capture_range ''upper_stamp'' of
             Inl e \<Rightarrow> Inl e
           | Inr upper_text \<Rightarrow>
               Inr (os @ ''lower_stamp: '' @ lower_text @ '', upper_stamp: '' @ upper_text)))"

definition CaptureRange_ostream_friend ::
  "('S \<Rightarrow> string) \<Rightarrow> ostream \<Rightarrow> 'S CaptureRange \<Rightarrow> compile_error + ostream" where
  "CaptureRange_ostream_friend = CaptureRange_ostream Friend"

definition CaptureRange_ostream_template ::
  "('S \<Rightarrow> string) \<Rightarrow> ostream \<Rightarrow> 'S CaptureRange \<Rightarrow> compile_error + ostream" where
  "CaptureRange_ostream_template = CaptureRange_ostream Outside"

subsection \<open>Assignment to data members\<close>





section \<open>Properties\<close>

subsection \<open>Auxiliary facts\<close>

lemma numeric_limits_min_less_max:
  assumes "0 < w"
  shows "numeric_limits_min is_signed w < numeric_limits_max is_signed w"
proof -
  define p :: int where "p = 2 ^ (w - 1)"
  have one: "1 \<le> p" by (simp add: p_def)
  from assms have double: "(2::int) ^ w = 2 * p"
    by (cases w) (simp_all add: p_def)
  show ?thesis
  proof (cases is_signed)
    case True
    then have "numeric_limits_min is_signed w = - p" "numeric_limits_max is_signed w = p - 1"
      by (simp_all add: numeric_limits_min_def numeric_limits_max_def p_def)
    with one show ?thesis by arith
  next
    case False
    then have "numeric_limits_min is_signed w = 0" "numeric_limits_max is_signed w = 2 * p - 1"
      by (simp_all add: numeric_limits_min_def numeric_limits_max_def double)
    with one show ?thesis by arith
  qed
qed

lemma integer_rank_cases:
  "integer_rank T = Some r \<Longrightarrow> T = Plain_char \<and> r = Char_rank \<or> T = Signed r \<or> T = Unsigned r"
  by (cases T) simp_all

text \<open>
  \<^verbatim>\<open>bool\<close>, \<^verbatim>\<open>void\<close>, \<^verbatim>\<open>std::nullptr_t\<close> and the floating-point types pass the static
  assertion of the primary template and fail at \<^verbatim>\<open>std::make_signed\<close>.
\<close>

lemma StampTraits_primary_not_integer:
  assumes "is_fundamental T" and "integer_rank T = None"
  shows "StampTraits T lowest highest = Inl (Make_signed_ill_formed T)"
  using assms by (cases T) (simp_all add: StampTraits_def StampTraits_primary_def)

lemma StampTraits_class_type:
  "StampTraits (Class name) lowest highest =
     Inl (Static_assert_failed (CHR 0x27 # ''StampT' must be fundemental type''))"
  by (simp add: StampTraits_def StampTraits_primary_def)

text \<open>
  The inline friend overload for \<^verbatim>\<open>Dispatch\<close> writes the two lines, and both overloads for
  \<^verbatim>\<open>CaptureRange\<close> write the two bounds.
\<close>

lemma Dispatch_ostream_friend_text:
  "Dispatch_ostream_friend put_stamp put_value os dispatch =
     Inr (os @ ''stamp: '' @ put_stamp (stamp_field dispatch) @
          CHR 0x0A # ''value: '' @ put_value (value_field dispatch))"
  by (simp add: Dispatch_ostream_friend_def Dispatch_member_def)

lemma CaptureRange_ostream_text:
  "CaptureRange_ostream who put_stamp os capture_range =
     Inr (os @ ''lower_stamp: '' @ put_stamp (lower_stamp capture_range) @
          '', upper_stamp: '' @ put_stamp (upper_stamp capture_range))"
  by (simp add: CaptureRange_ostream_def CaptureRange_member_def)

lemma CaptureRange_ostream_friend_text:
  "CaptureRange_ostream_friend put_stamp os capture_range =
     Inr (os @ ''lower_stamp: '' @ put_stamp (lower_stamp capture_range) @
          '', upper_stamp: '' @ put_stamp (upper_stamp capture_range))"
  by (simp add: CaptureRange_ostream_friend_def CaptureRange_ostream_text)

lemma CaptureRange_ostream_template_text:
  "CaptureRange_ostream_template put_stamp os capture_range =
     Inr (os @ ''lower_stamp: '' @ put_stamp (lower_stamp capture_range) @
          '', upper_stamp: '' @ put_stamp (upper_stamp capture_range))"
  by (simp add: CaptureRange_ostream_template_def CaptureRange_ostream_text)

text \<open>An inverted range is stored as it is given.\<close>

lemma CaptureRange_inverted_example:
  "CaptureRange_ctor traits (Two_args (9::int) 3) = \<lparr>lower_stamp = 9, upper_stamp = 3\<rparr>"
  by (simp add: CaptureRange_ctor_def)

subsection \<open>Dispatch\<close>

text \<open>
  C1. For every stamp type with an order \<open><\<close>, all stamps \<open>s1\<close>, \<open>s2\<close> and all values
  \<open>v1\<close>, \<open>v2\<close>: the dispatch built from \<open>(s1, v1)\<close> is less than the dispatch built from
  \<open>(s2, v2)\<close> exactly when \<open>s1 < s2\<close>; the values play no part.
\<close>

theorem Dispatch_less_iff_stamp_less:
  "operator_less (Dispatch_ctor (\<lambda>v. v) s1 v1) (Dispatch_ctor (\<lambda>v. v) s2 v2) = (s1 < s2)"
  by (simp add: operator_less_def Dispatch_ctor_def)

text \<open>
  C5. For every stamp \<open>s\<close> and every pack of value arguments, the dispatch constructed from
  them returns \<open>s\<close> from \<^verbatim>\<open>stamp()\<close> and, from \<^verbatim>\<open>data()\<close>, the value initialized in place
  from the pack.
\<close>

theorem Dispatch_ctor_roundtrip:
  "stamp (Dispatch_ctor init_value s value_args) = s \<and>
   data (Dispatch_ctor init_value s value_args) = init_value value_args"
  by (simp add: stamp_def data_def Dispatch_ctor_def)

text \<open>
  C6. For every stamp \<open>s\<close> of a type whose \<open><\<close> is a strict order, and all values
  \<open>v1 \<noteq> v2\<close>: neither of the dispatches built from \<open>(s, v1)\<close> and \<open>(s, v2)\<close> is less
  than the other.
\<close>

theorem Dispatch_equal_stamps_unordered:
  fixes s :: "'S::preorder"
  assumes "v1 \<noteq> v2"
  shows "\<not> operator_less (Dispatch_ctor (\<lambda>v. v) s v1) (Dispatch_ctor (\<lambda>v. v) s v2) \<and>
         \<not> operator_less (Dispatch_ctor (\<lambda>v. v) s v2) (Dispatch_ctor (\<lambda>v. v) s v1)"
  by (simp add: operator_less_def Dispatch_ctor_def)

theorem Dispatch_equal_stamps_unordered_witness:
  "''x'' \<noteq> ''y'' \<and>
   \<not> operator_less (Dispatch_ctor (\<lambda>v. v) (5::int) ''x'') (Dispatch_ctor (\<lambda>v. v) 5 ''y'') \<and>
   \<not> operator_less (Dispatch_ctor (\<lambda>v. v) (5::int) ''y'') (Dispatch_ctor (\<lambda>v. v) 5 ''x'')"
  using Dispatch_equal_stamps_unordered [of "''x''" "''y''" "5::int"] by simp

subsection \<open>StampTraits\<close>

text \<open>
  C2, as the code has it. For every standard signed or unsigned integer type and for plain
  \<^verbatim>\<open>char\<close>, whatever signedness and positive width the implementation gives it,
  \<^verbatim>\<open>StampTraits\<close> resolves to the primary template: \<^verbatim>\<open>offset_type\<close> is the signed
  integer type of the same rank, \<^verbatim>\<open>min()\<close> and \<^verbatim>\<open>max()\<close> are the numeric limits of the
  type, and \<^verbatim>\<open>min()\<close> is less than \<^verbatim>\<open>max()\<close>.
\<close>

theorem StampTraits_integer_resolvable:
  assumes "integer_rank T = Some r" and "0 < w"
  shows "StampTraits T (numeric_limits_min is_signed w) (numeric_limits_max is_signed w) =
           Inr \<lparr>stamp_type = T, offset_type = Signed r,
                min_stamp = numeric_limits_min is_signed w,
                max_stamp = numeric_limits_max is_signed w\<rparr>
         \<and> numeric_limits_min is_signed w < numeric_limits_max is_signed w"
proof -
  from assms(1) have "T = Plain_char \<and> r = Char_rank \<or> T = Signed r \<or> T = Unsigned r"
    by (rule integer_rank_cases)
  then have "StampTraits T (numeric_limits_min is_signed w) (numeric_limits_max is_signed w) =
           Inr \<lparr>stamp_type = T, offset_type = Signed r,
                min_stamp = numeric_limits_min is_signed w,
                max_stamp = numeric_limits_max is_signed w\<rparr>"
    by (auto simp add: StampTraits_def StampTraits_primary_def)
  with numeric_limits_min_less_max [OF assms(2)] show ?thesis by simp
qed

text \<open>The 32-bit \<^verbatim>\<open>unsigned int\<close>: the offset type is \<^verbatim>\<open>int\<close>, the bounds 0 and 4294967295.\<close>

theorem StampTraits_integer_resolvable_witness:
  "integer_rank (Unsigned Int_rank) = Some Int_rank \<and> (0::nat) < 32 \<and>
   StampTraits (Unsigned Int_rank) (numeric_limits_min False 32) (numeric_limits_max False 32) =
     Inr \<lparr>stamp_type = Unsigned Int_rank, offset_type = Signed Int_rank,
          min_stamp = 0, max_stamp = 4294967295\<rparr> \<and>
   numeric_limits_min False 32 < numeric_limits_max False 32"
  using StampTraits_integer_resolvable [of "Unsigned Int_rank" Int_rank 32 False]
  by (simp add: numeric_limits_min_def numeric_limits_max_def)

text \<open>
  C2, as stated, fails at \<^verbatim>\<open>float\<close>: the type is fundamental and its numeric limits
  (IEEE binary32: \<^verbatim>\<open>2^-126\<close> and \<^verbatim>\<open>2^128 - 2^104\<close>) are ordered, but
  \<^verbatim>\<open>std::make_signed<float>\<close> is ill-formed, so \<^verbatim>\<open>StampTraits<float>\<close> does not resolve.
\<close>

theorem StampTraits_float_not_resolvable:
  "is_fundamental Float \<and> (1 / 2 ^ 126 :: real) < 2 ^ 128 - 2 ^ 104 \<and>
   StampTraits Float (1 / 2 ^ 126 :: real) (2 ^ 128 - 2 ^ 104) =
     Inl (Make_signed_ill_formed Float)"
  by (simp add: StampTraits_def StampTraits_primary_def)

text \<open>
  C7. For every time-point stamp type \<^verbatim>\<open>std::chrono::time_point<ClockT, DurationT>\<close>,
  \<^verbatim>\<open>StampTraits\<close> resolves to the specialization: \<^verbatim>\<open>offset_type\<close> is \<^verbatim>\<open>DurationT\<close> itself,
  and \<^verbatim>\<open>min()\<close> and \<^verbatim>\<open>max()\<close> are the time-point type's own bounds.
\<close>

theorem StampTraits_time_point_resolution:
  "StampTraits (Time_point ClockT DurationT) time_point_min time_point_max =
     Inr \<lparr>stamp_type = Time_point ClockT DurationT, offset_type = DurationT,
          min_stamp = time_point_min, max_stamp = time_point_max\<rparr>"
  by (simp add: StampTraits_def StampTraits_time_point_def)

subsection \<open>CaptureRange\<close>

text \<open>
  C4. For every stamp type with resolved traits, the capture range constructed with no
  argument has \<^verbatim>\<open>lower_stamp\<close> equal to the traits' \<^verbatim>\<open>min()\<close> and \<^verbatim>\<open>upper_stamp\<close> equal to
  the traits' \<^verbatim>\<open>max()\<close>.
\<close>

theorem CaptureRange_default_bounds:
  "lower_stamp (CaptureRange_ctor traits No_args) = min_stamp traits \<and>
   upper_stamp (CaptureRange_ctor traits No_args) = max_stamp traits"
  by (simp add: CaptureRange_ctor_def)

text \<open>
  C8. For all stamps \<open>a\<close> and \<open>b\<close>, in any order, the capture range constructed from
  \<open>(a, b)\<close> has \<^verbatim>\<open>lower_stamp\<close> equal to \<open>a\<close> and \<^verbatim>\<open>upper_stamp\<close> equal to \<open>b\<close>: nothing
  is checked or adjusted.
\<close>

theorem CaptureRange_explicit_roundtrip:
  "lower_stamp (CaptureRange_ctor traits (Two_args a b)) = a \<and>
   upper_stamp (CaptureRange_ctor traits (Two_args a b)) = b"
  by (simp add: CaptureRange_ctor_def)

text \<open>
  C10. The capture range constructed from a single stamp \<open>a\<close> (the second parameter is
  defaulted, and the constructor is not \<^verbatim>\<open>explicit\<close>, so this is also the conversion from
  a stamp) has \<^verbatim>\<open>lower_stamp\<close> equal to \<open>a\<close> and \<^verbatim>\<open>upper_stamp\<close> equal to the traits'
  \<^verbatim>\<open>max()\<close>.
\<close>

theorem CaptureRange_single_argument:
  "lower_stamp (CaptureRange_ctor traits (One_arg a)) = a \<and>
   upper_stamp (CaptureRange_ctor traits (One_arg a)) = max_stamp traits"
  by (simp add: CaptureRange_ctor_def)

subsection \<open>Stream output\<close>

text \<open>
  C9 holds for the friend overloads and for the \<^verbatim>\<open>CaptureRange\<close> template (the lemmas
  above), and not for the function template that dispatch\_ostream.h provides for
  \<^verbatim>\<open>Dispatch\<close>: for every stamp type, value type and dispatch, for instance
  \<^verbatim>\<open>Dispatch<int, std::string>(5, "x")\<close>, its body is ill-formed when instantiated and
  writes nothing, because \<^verbatim>\<open>dispatch.stamp\<close> names a member function and
  \<^verbatim>\<open>dispatch.value\<close> names no member.
\<close>

theorem Dispatch_ostream_template_ill_formed:
  "Dispatch_ostream_template put_stamp put_value os dispatch =
     Inl (Member_function_not_called ''stamp'')"
  by (simp add: Dispatch_ostream_template_def Dispatch_member_def)

subsection \<open>Assignment to data members\<close>



end
